theory Spec2Isabelle
  imports Complex_Main
begin

section \<open>Strings\<close>

text \<open>
  A string of the program is modelled as a \<^typ>\<open>string\<close>: a list of code units below 256
  (the Latin-1 range of a JavaScript string). \<open>String.prototype.trim\<close> and
  \<open>String.prototype.toLowerCase\<close> are written out for that range.
\<close>

definition isWhiteSpace :: "char \<Rightarrow> bool" where
  \<comment> \<open>WhiteSpace and LineTerminator below 256: TAB, LF, VT, FF, CR, SP, NBSP.\<close>
  "isWhiteSpace c \<longleftrightarrow> (of_char c :: nat) \<in> {9, 10, 11, 12, 13, 32, 160}"

definition trim :: "string \<Rightarrow> string" where
  "trim s = rev (dropWhile isWhiteSpace (rev (dropWhile isWhiteSpace s)))"

definition toLowerChar :: "char \<Rightarrow> char" where
  \<comment> \<open>\<open>A\<close>-\<open>Z\<close> and the Latin-1 capitals U+00C0-U+00DE (without the sign U+00D7) move up by 32.\<close>
  "toLowerChar c =
     (let n = (of_char c :: nat)
      in if 65 \<le> n \<and> n \<le> 90 then char_of (n + 32)
         else if 192 \<le> n \<and> n \<le> 222 \<and> n \<noteq> 215 then char_of (n + 32)
         else c)"

definition toLowerCase :: "string \<Rightarrow> string" where
  "toLowerCase s = map toLowerChar s"

definition startsWithHash :: "string \<Rightarrow> bool" where
  \<comment> \<open>\<open>val.startsWith("#")\<close>\<close>
  "startsWithHash val = (case val of [] \<Rightarrow> False | c # _ \<Rightarrow> c = CHR ''#'')"

definition replaceLeadingHash :: "string \<Rightarrow> string" where
  \<comment> \<open>\<open>val.replace(/^#/, "")\<close>: drops one \<open>#\<close> at the start, if there is one.\<close>
  "replaceLeadingHash val =
     (case val of [] \<Rightarrow> [] | c # rest \<Rightarrow> if c = CHR ''#'' then rest else val)"

definition isLowerHexDigit :: "char \<Rightarrow> bool" where
  \<comment> \<open>the character class \<open>[0-9a-f]\<close>\<close>
  "isLowerHexDigit c \<longleftrightarrow> c \<in> set ''0123456789abcdef''"

definition testHexPattern :: "string \<Rightarrow> bool" where
  \<comment> \<open>\<open>/^#[0-9a-f]{6}$/.test(val)\<close>\<close>
  "testHexPattern val =
     (case val of [] \<Rightarrow> False
      | c # ds \<Rightarrow> c = CHR ''#'' \<and> length ds = 6 \<and> list_all isLowerHexDigit ds)"

section \<open>The named-color table\<close>

text \<open>
  \<open>namedColors\<close> is an object literal, so a property read \<open>namedColors[val]\<close> that finds
  no own property continues in \<open>Object.prototype\<close>. A value read from the object is
  therefore a string of the table, a built-in function, or the prototype object itself.
\<close>

datatype jsvalue = JSString string | JSFunction string | JSObjectPrototype

definition namedColors :: "(string \<times> string) list" where
  "namedColors =
    [(''red'', ''#ff0000''),
     (''blue'', ''#0000ff''),
     (''green'', ''#008000''),
     (''black'', ''#000000''),
     (''white'', ''#ffffff''),
     (''gray'', ''#808080''),
     (''silver'', ''#c0c0c0''),
     (''lime'', ''#00ff00''),
     (''navy'', ''#000080''),
     (''maroon'', ''#800000''),
     (''purple'', ''#800080''),
     (''olive'', ''#808000''),
     (''teal'', ''#008080''),
     (''aqua'', ''#00ffff''),
     (''yellow'', ''#ffff00''),
     (''fuchsia'', ''#ff00ff''),
     (''orange'', ''#ffa500'')]"

definition objectPrototype :: "(string \<times> jsvalue) list" where
  \<comment> \<open>the properties of \<open>Object.prototype\<close>; \<open>__proto__\<close> is an accessor whose getter
      returns the prototype of the receiver, here \<open>Object.prototype\<close>.\<close>
  "objectPrototype =
    [(''constructor'', JSFunction ''Object''),
     (''__defineGetter__'', JSFunction ''__defineGetter__''),
     (''__defineSetter__'', JSFunction ''__defineSetter__''),
     (''hasOwnProperty'', JSFunction ''hasOwnProperty''),
     (''__lookupGetter__'', JSFunction ''__lookupGetter__''),
     (''__lookupSetter__'', JSFunction ''__lookupSetter__''),
     (''isPrototypeOf'', JSFunction ''isPrototypeOf''),
     (''propertyIsEnumerable'', JSFunction ''propertyIsEnumerable''),
     (''toString'', JSFunction ''toString''),
     (''valueOf'', JSFunction ''valueOf''),
     (''__proto__'', JSObjectPrototype),
     (''toLocaleString'', JSFunction ''toLocaleString'')]"

definition getNamedColor :: "string \<Rightarrow> jsvalue option" where
  \<comment> \<open>\<open>namedColors[val]\<close>; \<open>None\<close> is \<open>undefined\<close>.\<close>
  "getNamedColor val =
     (case map_of namedColors val of
        Some hex \<Rightarrow> Some (JSString hex)
      | None \<Rightarrow> map_of objectPrototype val)"

fun truthy :: "jsvalue option \<Rightarrow> bool" where
  "truthy None = False"
| "truthy (Some (JSString s)) = (s \<noteq> [])"
| "truthy (Some (JSFunction _)) = True"
| "truthy (Some JSObjectPrototype) = True"

section \<open>normalizeColor\<close>

datatype error = InvalidColor

definition normalizeColor :: "string \<Rightarrow> error + jsvalue" where
  "normalizeColor input =
     (let val = toLowerCase (trim input) in
      if truthy (getNamedColor val) then
        (case getNamedColor val of Some v \<Rightarrow> Inr v | None \<Rightarrow> Inl InvalidColor)
      else
        (let val' = (if \<not> startsWithHash val then CHR ''#'' # replaceLeadingHash val else val)
         in if \<not> testHexPattern val' then Inl InvalidColor else Inr (JSString val')))"

section \<open>Luminance\<close>

text \<open>
  A number of the program is modelled as a real, with exact arithmetic in place of the
  rounding of binary64; \<open>NaN\<close> is \<open>None\<close>. \<open>x ** 2.4\<close> is \<^term>\<open>x powr 2.4\<close>, which
  agrees with it on the positive bases that reach it.
\<close>

definition slice :: "nat \<Rightarrow> nat \<Rightarrow> string \<Rightarrow> string" where
  \<comment> \<open>\<open>s.slice(i, j)\<close> for \<open>0 \<le> i \<le> j\<close>\<close>
  "slice i j s = take (j - i) (drop i s)"

definition hexDigitValue :: "char \<Rightarrow> nat option" where
  \<comment> \<open>the value of a radix-16 digit, in either case\<close>
  "hexDigitValue c =
     (let n = (of_char c :: nat)
      in if 48 \<le> n \<and> n \<le> 57 then Some (n - 48)
         else if 97 \<le> n \<and> n \<le> 102 then Some (n - 87)
         else if 65 \<le> n \<and> n \<le> 70 then Some (n - 55)
         else None)"

definition digitsValue :: "string \<Rightarrow> nat" where
  "digitsValue Z = foldl (\<lambda>acc c. 16 * acc + (case hexDigitValue c of Some d \<Rightarrow> d | None \<Rightarrow> 0)) 0 Z"

definition parseInt16 :: "string \<Rightarrow> int option" where
  \<comment> \<open>\<open>Number.parseInt(s, 16)\<close>: leading white space, a sign and a \<open>0x\<close> prefix are
      skipped, then the longest run of digits is read; no digit gives \<open>NaN\<close>.\<close>
  "parseInt16 s =
     (let S = dropWhile isWhiteSpace s;
          negative = (case S of [] \<Rightarrow> False | c # _ \<Rightarrow> c = CHR ''-'');
          S1 = (case S of [] \<Rightarrow> []
                | c # rest \<Rightarrow> if c = CHR ''+'' \<or> c = CHR ''-'' then rest else S);
          S2 = (case S1 of
                  a # b # rest \<Rightarrow>
                    if a = CHR ''0'' \<and> (b = CHR ''x'' \<or> b = CHR ''X'') then rest else S1
                | _ \<Rightarrow> S1);
          Z = takeWhile (\<lambda>c. hexDigitValue c \<noteq> None) S2
      in if Z = [] then None
         else Some ((if negative then - 1 else 1) * int (digitsValue Z)))"

definition toLinear :: "real \<Rightarrow> real" where
  "toLinear val =
     (let v = val / 255
      in if v \<le> 0.03928 then v / 12.92 else ((v + 0.055) / 1.055) powr 2.4)"

definition relativeLuminance :: "string \<Rightarrow> real option" where
  "relativeLuminance hex =
     (case (parseInt16 (slice 1 3 hex), parseInt16 (slice 3 5 hex), parseInt16 (slice 5 7 hex)) of
        (Some r, Some g, Some b) \<Rightarrow>
          (let R = toLinear (real_of_int r);
               G = toLinear (real_of_int g);
               B = toLinear (real_of_int b)
           in Some (0.2126 * R + 0.7152 * G + 0.0722 * B))
      | _ \<Rightarrow> None)"

section \<open>Contrast ratio and compliance levels\<close>

definition contrastRatio :: "string \<Rightarrow> string \<Rightarrow> real option" where
  "contrastRatio fgHex bgHex =
     (case (relativeLuminance fgHex, relativeLuminance bgHex) of
        (Some fgLum, Some bgLum) \<Rightarrow>
          (let L1 = max fgLum bgLum;
               L2 = min fgLum bgLum
           in Some ((L1 + 0.05) / (L2 + 0.05)))
      | _ \<Rightarrow> None)"

datatype level = AAA | AA | Fail

definition complianceLevel :: "real \<Rightarrow> level" where
  "complianceLevel ratio = (if ratio \<ge> 7 then AAA else if ratio \<ge> 4.5 then AA else Fail)"

definition complianceLevelLarge :: "real \<Rightarrow> level" where
  "complianceLevelLarge ratio = (if ratio \<ge> 4.5 then AAA else if ratio \<ge> 3 then AA else Fail)"

section \<open>The action\<close>

text \<open>
  The action reads the two form fields and returns either the result or the error
  response. Every exception raised inside its \<open>try\<close> block ends in the error response:
  the one thrown by \<open>normalizeColor\<close>, and the \<open>TypeError\<close> of \<open>hex.slice\<close> when the
  value handed to \<open>relativeLuminance\<close> is not a string. A ratio that is \<open>NaN\<close> fails
  every comparison of the two classifiers.
\<close>

datatype actionData =
  ActionResult "real option" level level string string
  | ActionError string

definition action :: "string \<Rightarrow> string \<Rightarrow> actionData" where
  "action fgInput bgInput =
     (case normalizeColor fgInput of
        Inl _ \<Rightarrow> ActionError ''Invalid input.''
      | Inr fg \<Rightarrow>
          (case normalizeColor bgInput of
             Inl _ \<Rightarrow> ActionError ''Invalid input.''
           | Inr bg \<Rightarrow>
               (case (fg, bg) of
                  (JSString fgHex, JSString bgHex) \<Rightarrow>
                    (case contrastRatio fgHex bgHex of
                       Some ratio \<Rightarrow>
                         ActionResult (Some ratio) (complianceLevel ratio)
                           (complianceLevelLarge ratio) fgHex bgHex
                     | None \<Rightarrow> ActionResult None Fail Fail fgHex bgHex)
                | _ \<Rightarrow> ActionError ''Invalid input.'')))"

section \<open>The data model of the specification\<close>

text \<open>
  A NormalizedColor in the words of the specification: exactly 7 characters, the first
  is \<open>#\<close>, the remaining 6 are lowercase hex digits.
\<close>

definition isNormalizedColor :: "string \<Rightarrow> bool" where
  "isNormalizedColor s \<longleftrightarrow>
     length s = 7 \<and> hd s = CHR ''#'' \<and> list_all isLowerHexDigit (tl s)"

definition isHexDigit :: "char \<Rightarrow> bool" where
  \<comment> \<open>a hex digit in either case, the class \<open>[0-9a-f]\<close> read case-insensitively\<close>
  "isHexDigit c \<longleftrightarrow> c \<in> set ''0123456789abcdefABCDEF''"

definition hexLower :: "char \<Rightarrow> char" where
  \<comment> \<open>the lowercase form of a hex digit: \<open>A\<close>-\<open>F\<close> become \<open>a\<close>-\<open>f\<close>\<close>
  "hexLower c = (case map_of (zip ''ABCDEF'' ''abcdef'') c of Some l \<Rightarrow> l | None \<Rightarrow> c)"

section \<open>Normalization: characters, table and hex branch\<close>

lemma lowerHex_plain:
  "isLowerHexDigit c \<Longrightarrow> \<not> isWhiteSpace c \<and> toLowerChar c = c \<and> c \<noteq> CHR ''#''"
  by (auto simp: isLowerHexDigit_def isWhiteSpace_def toLowerChar_def)

lemma hash_plain: "\<not> isWhiteSpace CHR ''#'' \<and> toLowerChar CHR ''#'' = CHR ''#''"
  by (simp add: isWhiteSpace_def toLowerChar_def)

lemma hexDigit_table:
  "list_all (\<lambda>c. \<not> isWhiteSpace c \<and> isLowerHexDigit (toLowerChar c) \<and> c \<noteq> CHR ''#''
       \<and> toLowerChar c = hexLower c)
     ''0123456789abcdefABCDEF''"
  by code_simp

lemma hexDigit_lower:
  "isHexDigit c \<Longrightarrow> \<not> isWhiteSpace c \<and> isLowerHexDigit (toLowerChar c) \<and> c \<noteq> CHR ''#''
     \<and> toLowerChar c = hexLower c"
  using hexDigit_table unfolding isHexDigit_def list_all_iff by blast

lemma trim_id:
  assumes "s \<noteq> []" "\<not> isWhiteSpace (hd s)" "\<not> isWhiteSpace (last s)"
  shows "trim s = s"
proof -
  have "dropWhile isWhiteSpace s = s"
    using assms by (cases s) auto
  moreover have "dropWhile isWhiteSpace (rev s) = rev s"
    using assms by (cases "rev s") (auto simp: hd_rev dest: arg_cong [where f = hd])
  ultimately show ?thesis by (simp add: trim_def)
qed

lemma table_facts:
  "list_all (\<lambda>(k, v). testHexPattern v \<and> \<not> list_all isLowerHexDigit k \<and> \<not> startsWithHash k) namedColors"
  by code_simp

lemma proto_facts:
  "list_all (\<lambda>(k, v). \<not> list_all isLowerHexDigit k \<and> \<not> startsWithHash k) objectPrototype"
  by code_simp

lemma getNamedColor_key:
  assumes "getNamedColor val = Some v"
  shows "\<not> list_all isLowerHexDigit val \<and> \<not> startsWithHash val"
proof (cases "map_of namedColors val")
  case (Some hex)
  then have "(val, hex) \<in> set namedColors" by (rule map_of_SomeD)
  with table_facts show ?thesis by (auto simp: list_all_iff)
next
  case None
  with assms have "map_of objectPrototype val = Some v" by (simp add: getNamedColor_def)
  then have "(val, v) \<in> set objectPrototype" by (rule map_of_SomeD)
  with proto_facts show ?thesis by (auto simp: list_all_iff)
qed

lemma getNamedColor_string:
  assumes "getNamedColor val = Some (JSString r)"
  shows "testHexPattern r"
proof (cases "map_of namedColors val")
  case (Some hex)
  then have "(val, hex) \<in> set namedColors" by (rule map_of_SomeD)
  with table_facts have "testHexPattern hex" by (auto simp: list_all_iff)
  with Some assms show ?thesis by (simp add: getNamedColor_def)
next
  case None
  with assms have "map_of objectPrototype val = Some (JSString r)" by (simp add: getNamedColor_def)
  then have "(val, JSString r) \<in> set objectPrototype" by (rule map_of_SomeD)
  then show ?thesis by (simp add: objectPrototype_def)
qed

lemma testHexPattern_iff:
  "testHexPattern val \<longleftrightarrow> (\<exists>ds. val = CHR ''#'' # ds \<and> length ds = 6 \<and> list_all isLowerHexDigit ds)"
  by (cases val) (auto simp: testHexPattern_def)

lemma isNormalizedColor_test: "isNormalizedColor s = testHexPattern s"
  by (cases s) (auto simp: isNormalizedColor_def testHexPattern_def)

lemma not_named_hash: "startsWithHash val \<Longrightarrow> \<not> truthy (getNamedColor val)"
  using getNamedColor_key [of val] by (cases "getNamedColor val") auto

lemma not_named_hex: "list_all isLowerHexDigit val \<Longrightarrow> \<not> truthy (getNamedColor val)"
  using getNamedColor_key [of val] by (cases "getNamedColor val") auto

text \<open>the hex branch, on the trimmed and lowercased value\<close>

lemma normalize_with_hash:
  assumes "toLowerCase (trim input) = val" "testHexPattern val"
  shows "normalizeColor input = Inr (JSString val)"
proof -
  from assms(2) have h: "startsWithHash val"
    by (auto simp: testHexPattern_iff startsWithHash_def)
  with assms not_named_hash [OF h] show ?thesis
    by (simp add: normalizeColor_def Let_def)
qed

lemma normalize_without_hash:
  assumes "toLowerCase (trim input) = val" "length val = 6" "list_all isLowerHexDigit val"
  shows "normalizeColor input = Inr (JSString (CHR ''#'' # val))"
proof -
  from assms(2) obtain c rest where v: "val = c # rest" by (cases val) auto
  with assms(3) have c: "c \<noteq> CHR ''#''" using lowerHex_plain [of c] by simp
  have h: "\<not> startsWithHash val" and r: "replaceLeadingHash val = val"
    using v c by (simp_all add: startsWithHash_def replaceLeadingHash_def)
  have t: "testHexPattern (CHR ''#'' # val)"
    using assms by (simp add: testHexPattern_def)
  show ?thesis
    using assms(1) not_named_hex [OF assms(3)] h r t
    by (simp add: normalizeColor_def Let_def)
qed

lemma lowerHex_string_plain:
  assumes "s \<noteq> []" "list_all (\<lambda>c. isLowerHexDigit c \<or> c = CHR ''#'') s"
  shows "toLowerCase (trim s) = s"
proof -
  have each: "\<And>c. c \<in> set s \<Longrightarrow> \<not> isWhiteSpace c \<and> toLowerChar c = c"
    using assms(2) lowerHex_plain hash_plain by (auto simp: list_all_iff)
  have "trim s = s"
    using assms(1) each by (intro trim_id) auto
  moreover have "map toLowerChar s = s"
    using each by (intro map_idI) auto
  ultimately show ?thesis by (simp add: toLowerCase_def)
qed

lemma hex_string_trim:
  assumes "s \<noteq> []" "list_all (\<lambda>c. isHexDigit c \<or> c = CHR ''#'') s"
  shows "trim s = s"
proof -
  have each: "\<And>c. c \<in> set s \<Longrightarrow> \<not> isWhiteSpace c"
    using assms(2) hexDigit_lower hash_plain by (auto simp: list_all_iff)
  show "trim s = s"
    using assms(1) each by (intro trim_id) auto
qed

lemma fixed_point: "testHexPattern v \<Longrightarrow> normalizeColor v = Inr (JSString v)"
proof -
  assume t: "testHexPattern v"
  then have "v \<noteq> []" "list_all (\<lambda>c. isLowerHexDigit c \<or> c = CHR ''#'') v"
    by (auto simp: testHexPattern_iff list_all_iff)
  then have "toLowerCase (trim v) = v" by (rule lowerHex_string_plain)
  then show ?thesis using t by (rule normalize_with_hash)
qed

lemma string_result: "normalizeColor s = Inr (JSString r) \<Longrightarrow> testHexPattern r"
  unfolding normalizeColor_def Let_def
  by (auto split: if_splits option.splits intro: getNamedColor_string)

section \<open>Claims about normalizeColor\<close>

text \<open>
  C10: normalizeColor is idempotent on the strings it returns: when it succeeds on an
  input and returns a string \<open>r\<close>, it succeeds on \<open>r\<close> and returns \<open>r\<close> itself.
\<close>

theorem normalizeColor_idempotent:
  "normalizeColor s = Inr (JSString r) \<Longrightarrow> normalizeColor r = Inr (JSString r)"
  by (rule fixed_point) (rule string_result)

theorem normalizeColor_idempotent_witness:
  "normalizeColor ''  Red '' = Inr (JSString ''#ff0000'')
   \<and> normalizeColor ''#ff0000'' = Inr (JSString ''#ff0000'')"
proof -
  have h: "normalizeColor ''  Red '' = Inr (JSString ''#ff0000'')" by code_simp
  from normalizeColor_idempotent [OF h] h show ?thesis by simp
qed

text \<open>
  C2: in the hex branch a value that already starts with \<open>#\<close> is validated as it is,
  and a value that does not is validated with one \<open>#\<close> put in front; no \<open>#\<close> is
  stripped from a value. So one \<open>#\<close> followed by 6 lowercase hex digits, and the 6
  digits alone, normalize to \<open>#\<close> followed by the digits, and two or more \<open>#\<close> in
  front of the digits are rejected with InvalidColor.
\<close>

theorem normalizeColor_single_hash:
  assumes "length ds = 6" and "list_all isLowerHexDigit ds"
  shows "normalizeColor (CHR ''#'' # ds) = Inr (JSString (CHR ''#'' # ds))
       \<and> normalizeColor ds = Inr (JSString (CHR ''#'' # ds))
       \<and> (2 \<le> n \<longrightarrow> normalizeColor (replicate n CHR ''#'' @ ds) = Inl InvalidColor)"
proof (intro conjI impI)
  from assms have ne: "ds \<noteq> []" by auto
  from assms have t: "testHexPattern (CHR ''#'' # ds)" by (simp add: testHexPattern_def)
  then show "normalizeColor (CHR ''#'' # ds) = Inr (JSString (CHR ''#'' # ds))"
    by (rule fixed_point)
  have "toLowerCase (trim ds) = ds"
    using ne assms(2) by (intro lowerHex_string_plain) (auto simp: list_all_iff)
  then show "normalizeColor ds = Inr (JSString (CHR ''#'' # ds))"
    using assms by (rule normalize_without_hash)
  assume n: "2 \<le> n"
  let ?s = "replicate n CHR ''#'' @ ds"
  from n obtain m where m: "n = Suc (Suc m)" by (cases n; cases "n - 1") auto
  have "toLowerCase (trim ?s) = ?s"
    using m assms(2) by (intro lowerHex_string_plain) (auto simp: list_all_iff)
  moreover have "startsWithHash ?s" using m by (simp add: startsWithHash_def)
  moreover have "\<not> testHexPattern ?s" using m assms(1) by (simp add: testHexPattern_def)
  ultimately show "normalizeColor ?s = Inl InvalidColor"
    using not_named_hash [of ?s] by (simp add: normalizeColor_def Let_def)
qed

theorem normalizeColor_single_hash_witness:
  "length ''abc123'' = 6 \<and> list_all isLowerHexDigit ''abc123''
   \<and> normalizeColor ''#abc123'' = Inr (JSString ''#abc123'')
   \<and> normalizeColor ''abc123'' = Inr (JSString ''#abc123'')
   \<and> (2::nat) \<le> 3 \<and> normalizeColor ''###abc123'' = Inl InvalidColor"
proof -
  have a: "length ''abc123'' = 6" by simp
  have b: "list_all isLowerHexDigit ''abc123''" by (simp add: isLowerHexDigit_def)
  from normalizeColor_single_hash [OF a b, of 3] a b show ?thesis by (simp add: eval_nat_numeral)
qed

text \<open>
  The claim C2 as written, with any number of leading \<open>#\<close>, fails on two of them.
\<close>

theorem normalizeColor_double_hash_rejected:
  "normalizeColor ''##abc123'' = Inl InvalidColor
   \<and> normalizeColor ''##abc123'' \<noteq> Inr (JSString ''#abc123'')"
  by code_simp

text \<open>
  C7: for 6 hex digits in either case, with or without the leading \<open>#\<close>, normalizeColor
  succeeds and returns \<open>#\<close> followed by the digits in lowercase, a NormalizedColor; in
  particular \<open>#FFAA00\<close> gives \<open>#ffaa00\<close>, the case being folded before the pattern is
  tested.
\<close>

theorem normalizeColor_hex_any_case:
  assumes "length ds = 6" and "list_all isHexDigit ds"
  shows "normalizeColor (CHR ''#'' # ds) = Inr (JSString (CHR ''#'' # toLowerCase ds))
       \<and> normalizeColor ds = Inr (JSString (CHR ''#'' # toLowerCase ds))
       \<and> toLowerCase ds = map hexLower ds
       \<and> isNormalizedColor (CHR ''#'' # toLowerCase ds)
       \<and> normalizeColor ''#FFAA00'' = Inr (JSString ''#ffaa00'')"
proof -
  from assms have ne: "ds \<noteq> []" by auto
  have digit: "isHexDigit c" if "c \<in> set ds" for c
    using that assms(2) by (simp add: list_all_iff)
  have lower: "isLowerHexDigit (toLowerChar c)" if "c \<in> set ds" for c
    using digit [OF that] hexDigit_lower [of c] by blast
  have same: "toLowerChar c = hexLower c" if "c \<in> set ds" for c
    using digit [OF that] hexDigit_lower [of c] by blast
  have low: "list_all isLowerHexDigit (toLowerCase ds)"
    by (simp add: list_all_iff toLowerCase_def lower)
  have len: "length (toLowerCase ds) = 6" using assms(1) by (simp add: toLowerCase_def)
  have t: "testHexPattern (CHR ''#'' # toLowerCase ds)"
    using low len by (simp add: testHexPattern_def)
  have "trim (CHR ''#'' # ds) = CHR ''#'' # ds"
    using assms(2) by (intro hex_string_trim) (auto simp: list_all_iff)
  then have "toLowerCase (trim (CHR ''#'' # ds)) = CHR ''#'' # toLowerCase ds"
    using hash_plain by (simp add: toLowerCase_def)
  then have 1: "normalizeColor (CHR ''#'' # ds) = Inr (JSString (CHR ''#'' # toLowerCase ds))"
    using t by (rule normalize_with_hash)
  have "trim ds = ds"
    using ne assms(2) by (intro hex_string_trim) (auto simp: list_all_iff)
  then have "toLowerCase (trim ds) = toLowerCase ds" by simp
  then have 2: "normalizeColor ds = Inr (JSString (CHR ''#'' # toLowerCase ds))"
    using len low by (rule normalize_without_hash)
  have 3: "toLowerCase ds = map hexLower ds"
    unfolding toLowerCase_def by (rule map_cong) (simp_all add: same)
  have 4: "normalizeColor ''#FFAA00'' = Inr (JSString ''#ffaa00'')" by code_simp
  from 1 2 3 4 t show ?thesis by (simp add: isNormalizedColor_test)
qed

theorem normalizeColor_hex_any_case_witness:
  "length ''FFAA00'' = 6 \<and> list_all isHexDigit ''FFAA00''
   \<and> normalizeColor ''#FFAA00'' = Inr (JSString ''#ffaa00'')
   \<and> normalizeColor ''FFAA00'' = Inr (JSString ''#ffaa00'')
   \<and> map hexLower ''FFAA00'' = ''ffaa00''
   \<and> isNormalizedColor ''#ffaa00''"
proof -
  have a: "length ''FFAA00'' = 6" by simp
  have b: "list_all isHexDigit ''FFAA00''" by (simp add: isHexDigit_def)
  have c: "toLowerCase ''FFAA00'' = ''ffaa00''" by code_simp
  have d: "map hexLower ''FFAA00'' = ''ffaa00''" by code_simp
  have e: "isNormalizedColor ''#ffaa00''" by (simp add: isNormalizedColor_def isLowerHexDigit_def)
  from normalizeColor_hex_any_case [OF a b] a b d e show ?thesis
    by (simp only: c simp_thms)
qed

section \<open>Inherited properties of the table\<close>

text \<open>
  The read \<open>namedColors[val]\<close> also finds the properties that the table inherits. Of
  their names only \<open>constructor\<close> and \<open>__proto__\<close> are lowercase, so these two are the
  only values of the trimmed, lowercased input that are accepted without being a key of
  the table or a hex code.
\<close>

lemma toLowerChar_not_upper:
  "\<not> (65 \<le> (of_char (toLowerChar c) :: nat) \<and> (of_char (toLowerChar c) :: nat) \<le> 90)"
  by (auto simp: toLowerChar_def Let_def)

lemma proto_keys:
  "list_all (\<lambda>(k, v). k = ''constructor'' \<or> k = ''__proto__''
       \<or> list_ex (\<lambda>c. 65 \<le> (of_char c :: nat) \<and> (of_char c :: nat) \<le> 90) k) objectPrototype"
  by code_simp

lemma proto_key_lower:
  assumes "map_of objectPrototype (toLowerCase x) = Some v"
  shows "toLowerCase x = ''constructor'' \<or> toLowerCase x = ''__proto__''"
proof -
  from assms have "(toLowerCase x, v) \<in> set objectPrototype" by (rule map_of_SomeD)
  with proto_keys have
    "toLowerCase x = ''constructor'' \<or> toLowerCase x = ''__proto__''
     \<or> list_ex (\<lambda>c. 65 \<le> (of_char c :: nat) \<and> (of_char c :: nat) \<le> 90) (toLowerCase x)"
    by (auto simp: list_all_iff)
  moreover have
    "\<not> list_ex (\<lambda>c. 65 \<le> (of_char c :: nat) \<and> (of_char c :: nat) \<le> 90) (toLowerCase x)"
    using toLowerChar_not_upper by (auto simp: list_ex_iff toLowerCase_def)
  ultimately show ?thesis by blast
qed

lemma proto_truthy:
  "map_of objectPrototype ''constructor'' = Some (JSFunction ''Object'')
   \<and> map_of objectPrototype ''__proto__'' = Some JSObjectPrototype
   \<and> map_of namedColors ''constructor'' = None \<and> map_of namedColors ''__proto__'' = None"
  by code_simp

lemma hex_branch_iff:
  "testHexPattern (if \<not> startsWithHash val then CHR ''#'' # replaceLeadingHash val else val)
   \<longleftrightarrow> testHexPattern val \<or> testHexPattern (CHR ''#'' # val)"
proof (cases val)
  case Nil
  then show ?thesis by (simp add: startsWithHash_def replaceLeadingHash_def testHexPattern_def)
next
  case (Cons c rest)
  show ?thesis
  proof (cases "c = CHR ''#''")
    case True
    have "\<not> isLowerHexDigit CHR ''#''" by (simp add: isLowerHexDigit_def)
    with True Cons show ?thesis
      by (simp add: startsWithHash_def testHexPattern_def)
  next
    case False
    with Cons show ?thesis
      by (simp add: startsWithHash_def replaceLeadingHash_def testHexPattern_def)
  qed
qed

lemma normalizeColor_succeeds_iff:
  "(\<exists>v. normalizeColor input = Inr v) \<longleftrightarrow>
     (let val = toLowerCase (trim input)
      in val \<in> fst ` set namedColors \<or> val = ''constructor'' \<or> val = ''__proto__''
         \<or> testHexPattern val \<or> testHexPattern (CHR ''#'' # val))"
proof -
  define val where "val = toLowerCase (trim input)"
  show ?thesis
  proof (cases "map_of namedColors val")
    case (Some hex)
    then have in_table: "(val, hex) \<in> set namedColors" by (rule map_of_SomeD)
    with table_facts have "testHexPattern hex" by (auto simp: list_all_iff)
    then have "hex \<noteq> []" by (auto simp: testHexPattern_def)
    with Some have "normalizeColor input = Inr (JSString hex)"
      by (simp add: normalizeColor_def Let_def val_def [symmetric] getNamedColor_def)
    moreover from in_table have "val \<in> fst ` set namedColors" by force
    ultimately show ?thesis by (simp add: Let_def val_def [symmetric])
  next
    case None
    then have not_key: "val \<notin> fst ` set namedColors" by (simp add: map_of_eq_None_iff)
    show ?thesis
    proof (cases "map_of objectPrototype val")
      case (Some v)
      then have k: "val = ''constructor'' \<or> val = ''__proto__''"
        unfolding val_def by (rule proto_key_lower)
      with Some proto_truthy have "truthy (Some v)" by auto
      with None Some have "normalizeColor input = Inr v"
        by (simp add: normalizeColor_def Let_def val_def [symmetric] getNamedColor_def)
      with k show ?thesis by (auto simp: Let_def val_def [symmetric])
    next
      case none: None
      then have "val \<noteq> ''constructor''" "val \<noteq> ''__proto__''"
        using proto_truthy by auto
      moreover from None none have "getNamedColor val = None" by (simp add: getNamedColor_def)
      ultimately show ?thesis
        using not_key hex_branch_iff [of val]
        by (auto simp: normalizeColor_def Let_def val_def [symmetric])
    qed
  qed
qed

text \<open>
  C1: normalizeColor should succeed exactly on the keys of the named-color table and on
  well-formed 6-digit hex codes, and fail with InvalidColor on every other input. On
  the input \<open>constructor\<close>, which is neither, the code does not fail: it returns the
  function inherited from \<open>Object.prototype\<close>.
\<close>

theorem normalizeColor_accepts_constructor:
  "normalizeColor ''constructor'' = Inr (JSFunction ''Object'')
   \<and> map_of namedColors ''constructor'' = None
   \<and> \<not> testHexPattern ''constructor'' \<and> \<not> testHexPattern ''#constructor''"
  by code_simp

text \<open>
  C3: every value that normalizeColor returns should be a NormalizedColor, a string of
  7 characters. On the input \<open>__proto__\<close> the code returns the prototype object, which
  is not a string.
\<close>

theorem normalizeColor_returns_prototype:
  "normalizeColor ''__proto__'' = Inr JSObjectPrototype"
  by code_simp

section \<open>Luminance and contrast of normalized colors\<close>

lemma lowerHex_digit:
  "isLowerHexDigit c \<Longrightarrow>
     (\<exists>d. hexDigitValue c = Some d \<and> d < 16) \<and> \<not> isWhiteSpace c
     \<and> c \<noteq> CHR ''-'' \<and> c \<noteq> CHR ''+'' \<and> c \<noteq> CHR ''x'' \<and> c \<noteq> CHR ''X''"
  by (auto simp: isLowerHexDigit_def hexDigitValue_def isWhiteSpace_def)

lemma parseInt16_byte:
  assumes "isLowerHexDigit a" "isLowerHexDigit b"
  shows "\<exists>n. parseInt16 [a, b] = Some (int n) \<and> n \<le> 255"
proof -
  from lowerHex_digit [OF assms(1)] obtain da where
    a: "hexDigitValue a = Some da" "da < 16" "\<not> isWhiteSpace a" "a \<noteq> CHR ''-''" "a \<noteq> CHR ''+''"
    by blast
  from lowerHex_digit [OF assms(2)] obtain db where
    b: "hexDigitValue b = Some db" "db < 16" "b \<noteq> CHR ''x''" "b \<noteq> CHR ''X''"
    by blast
  have "parseInt16 [a, b] = Some (int (16 * da + db))"
    using a b by (simp add: parseInt16_def digitsValue_def)
  moreover have "16 * da + db \<le> 255" using a(2) b(2) by simp
  ultimately show ?thesis by blast
qed

lemma toLinear_range:
  assumes "0 \<le> x" "x \<le> 255"
  shows "0 \<le> toLinear x \<and> toLinear x \<le> 1"
proof (cases "x / 255 \<le> 0.03928")
  case True
  with assms show ?thesis by (simp add: toLinear_def)
next
  case False
  let ?base = "(x / 255 + 0.055) / 1.055"
  have "0 \<le> ?base" and "?base \<le> 1" using assms by simp_all
  then have "?base powr 2.4 \<le> 1" by (intro powr_le1) simp_all
  with False show ?thesis by (simp add: toLinear_def)
qed

lemma relativeLuminance_range:
  assumes "testHexPattern hex"
  shows "\<exists>L. relativeLuminance hex = Some L \<and> 0 \<le> L \<and> L \<le> 1"
proof -
  from assms obtain ds where ds: "hex = CHR ''#'' # ds" "length ds = 6" "list_all isLowerHexDigit ds"
    by (auto simp: testHexPattern_iff)
  from ds(2) obtain a b c d e f where six: "ds = [a, b, c, d, e, f]"
    by (auto simp: eval_nat_numeral length_Suc_conv)
  have s: "slice 1 3 hex = [a, b]" "slice 3 5 hex = [c, d]" "slice 5 7 hex = [e, f]"
    by (simp_all add: slice_def ds(1) six)
  from ds(3) six have h: "isLowerHexDigit a" "isLowerHexDigit b" "isLowerHexDigit c"
    "isLowerHexDigit d" "isLowerHexDigit e" "isLowerHexDigit f" by simp_all
  from parseInt16_byte [OF h(1) h(2)] obtain r where r: "parseInt16 [a, b] = Some (int r)" "r \<le> 255"
    by blast
  from parseInt16_byte [OF h(3) h(4)] obtain g where g: "parseInt16 [c, d] = Some (int g)" "g \<le> 255"
    by blast
  from parseInt16_byte [OF h(5) h(6)] obtain bl where bl: "parseInt16 [e, f] = Some (int bl)" "bl \<le> 255"
    by blast
  let ?R = "toLinear (real r)" and ?G = "toLinear (real g)" and ?B = "toLinear (real bl)"
  have R: "0 \<le> ?R \<and> ?R \<le> 1" using r(2) by (intro toLinear_range) simp_all
  have G: "0 \<le> ?G \<and> ?G \<le> 1" using g(2) by (intro toLinear_range) simp_all
  have B: "0 \<le> ?B \<and> ?B \<le> 1" using bl(2) by (intro toLinear_range) simp_all
  have "relativeLuminance hex = Some (0.2126 * ?R + 0.7152 * ?G + 0.0722 * ?B)"
    by (simp only: relativeLuminance_def s r(1) g(1) bl(1)) simp
  moreover have "0 \<le> 0.2126 * ?R + 0.7152 * ?G + 0.0722 * ?B" using R G B by simp
  moreover have "0.2126 * ?R + 0.7152 * ?G + 0.0722 * ?B \<le> 1" using R G B by simp
  ultimately show ?thesis by blast
qed

lemma ratio_range:
  fixes la lb :: real
  assumes "0 \<le> la" "la \<le> 1" "0 \<le> lb" "lb \<le> 1"
  shows "1 \<le> (max la lb + 0.05) / (min la lb + 0.05) \<and> (max la lb + 0.05) / (min la lb + 0.05) \<le> 21"
proof -
  have pos: "0 < min la lb + 0.05" using assms by simp
  have "min la lb + 0.05 \<le> max la lb + 0.05" by simp
  then have lo: "1 \<le> (max la lb + 0.05) / (min la lb + 0.05)"
    using pos by (simp add: le_divide_eq)
  have "max la lb + 0.05 \<le> 21 * (min la lb + 0.05)" using assms by simp
  then have hi: "(max la lb + 0.05) / (min la lb + 0.05) \<le> 21"
    using pos by (simp add: divide_le_eq)
  from lo hi show ?thesis ..
qed

lemma toLinear_255: "toLinear 255 = 1" by (simp add: toLinear_def)
lemma toLinear_0: "toLinear 0 = 0" by (simp add: toLinear_def)

lemma parse_ff: "parseInt16 ''ff'' = Some 255" by code_simp
lemma parse_00: "parseInt16 ''00'' = Some 0" by code_simp

lemma lum_white: "relativeLuminance ''#ffffff'' = Some 1"
  by (simp add: relativeLuminance_def slice_def parse_ff toLinear_255)

lemma lum_black: "relativeLuminance ''#000000'' = Some 0"
  by (simp add: relativeLuminance_def slice_def parse_00 toLinear_0)

lemma lum_red: "relativeLuminance ''#ff0000'' = Some 0.2126"
  by (simp add: relativeLuminance_def slice_def parse_ff parse_00 toLinear_255 toLinear_0)

lemma norm_red: "normalizeColor ''red'' = Inr (JSString ''#ff0000'')" by code_simp
lemma norm_white: "normalizeColor ''white'' = Inr (JSString ''#ffffff'')" by code_simp

lemma ratio_red_white: "contrastRatio ''#ff0000'' ''#ffffff'' = Some (5250 / 1313)"
  by (simp add: contrastRatio_def lum_white lum_red)

text \<open>
  C6: for every pair of NormalizedColors both relative luminances lie in \<open>[0, 1]\<close>, and
  the contrast ratio \<open>(L1 + 0.05) / (L2 + 0.05)\<close>, with \<open>L1\<close> the larger and \<open>L2\<close> the
  smaller luminance, lies in \<open>[1, 21]\<close>.
\<close>

theorem contrastRatio_range:
  assumes "isNormalizedColor a" "isNormalizedColor b"
  shows "\<exists>la lb r. relativeLuminance a = Some la \<and> 0 \<le> la \<and> la \<le> 1
           \<and> relativeLuminance b = Some lb \<and> 0 \<le> lb \<and> lb \<le> 1
           \<and> contrastRatio a b = Some r \<and> r = (max la lb + 0.05) / (min la lb + 0.05)
           \<and> 1 \<le> r \<and> r \<le> 21"
proof -
  from assms(1) obtain la where la: "relativeLuminance a = Some la" "0 \<le> la" "la \<le> 1"
    using relativeLuminance_range [of a] by (auto simp: isNormalizedColor_test)
  from assms(2) obtain lb where lb: "relativeLuminance b = Some lb" "0 \<le> lb" "lb \<le> 1"
    using relativeLuminance_range [of b] by (auto simp: isNormalizedColor_test)
  have "contrastRatio a b = Some ((max la lb + 0.05) / (min la lb + 0.05))"
    by (simp add: contrastRatio_def la(1) lb(1))
  with la lb ratio_range [OF la(2,3) lb(2,3)] show ?thesis by blast
qed

theorem contrastRatio_range_witness:
  "isNormalizedColor ''#ffffff'' \<and> isNormalizedColor ''#000000''
   \<and> relativeLuminance ''#ffffff'' = Some 1 \<and> relativeLuminance ''#000000'' = Some 0
   \<and> (\<exists>r. contrastRatio ''#ffffff'' ''#000000'' = Some r \<and> 1 \<le> r \<and> r \<le> 21)"
proof -
  have a: "isNormalizedColor ''#ffffff''" by (simp add: isNormalizedColor_def isLowerHexDigit_def)
  have b: "isNormalizedColor ''#000000''" by (simp add: isNormalizedColor_def isLowerHexDigit_def)
  from contrastRatio_range [OF a b] a b lum_white lum_black show ?thesis by auto
qed

text \<open>
  C5: contrastRatio is symmetric: for every pair of NormalizedColors it returns the same
  number in both orders.
\<close>

theorem contrastRatio_symmetric:
  assumes "isNormalizedColor a" "isNormalizedColor b"
  shows "\<exists>r. contrastRatio a b = Some r \<and> contrastRatio b a = Some r"
proof -
  from assms(1) obtain la where la: "relativeLuminance a = Some la"
    using relativeLuminance_range [of a] by (auto simp: isNormalizedColor_test)
  from assms(2) obtain lb where lb: "relativeLuminance b = Some lb"
    using relativeLuminance_range [of b] by (auto simp: isNormalizedColor_test)
  show ?thesis
    by (simp add: contrastRatio_def la lb max.commute min.commute)
qed

theorem contrastRatio_symmetric_witness:
  "isNormalizedColor ''#ff0000'' \<and> isNormalizedColor ''#ffffff''
   \<and> contrastRatio ''#ff0000'' ''#ffffff'' = Some (5250 / 1313)
   \<and> contrastRatio ''#ffffff'' ''#ff0000'' = Some (5250 / 1313)"
proof -
  have a: "isNormalizedColor ''#ff0000''" by (simp add: isNormalizedColor_def isLowerHexDigit_def)
  have b: "isNormalizedColor ''#ffffff''" by (simp add: isNormalizedColor_def isLowerHexDigit_def)
  from contrastRatio_symmetric [OF a b] a b ratio_red_white show ?thesis by auto
qed

text \<open>
  C8: the contrast ratio of white on black is 21 within \<open>1e-9\<close>, and the contrast
  ratio of white on white is 1.
\<close>

theorem contrastRatio_reference_values:
  "(\<exists>r. contrastRatio ''#ffffff'' ''#000000'' = Some r \<and> \<bar>r - 21\<bar> \<le> 1 / 10 ^ 9)
   \<and> contrastRatio ''#ffffff'' ''#ffffff'' = Some 1"
  by (simp add: contrastRatio_def lum_white lum_black)

section \<open>Compliance levels and the action\<close>

text \<open>
  C4: both classifiers have tiers that include their lower bound: for normal text AAA
  from 7, AA from 4.5 and below 7, Fail below 4.5; for large text AAA from 4.5, AA from
  3 and below 4.5, Fail below 3; with the values at 7.0, 4.5, 4.49, 3.0 and 2.99.
\<close>

theorem compliance_tiers:
  "(7 \<le> r \<longrightarrow> complianceLevel r = AAA)
   \<and> (4.5 \<le> r \<and> r < 7 \<longrightarrow> complianceLevel r = AA)
   \<and> (r < 4.5 \<longrightarrow> complianceLevel r = Fail)
   \<and> (4.5 \<le> r \<longrightarrow> complianceLevelLarge r = AAA)
   \<and> (3 \<le> r \<and> r < 4.5 \<longrightarrow> complianceLevelLarge r = AA)
   \<and> (r < 3 \<longrightarrow> complianceLevelLarge r = Fail)
   \<and> complianceLevel 7.0 = AAA \<and> complianceLevel 4.5 = AA \<and> complianceLevel 4.49 = Fail
   \<and> complianceLevelLarge 3.0 = AA \<and> complianceLevelLarge 2.99 = Fail"
  by (simp add: complianceLevel_def complianceLevelLarge_def)

theorem compliance_tiers_witness:
  "(7::real) \<le> 8 \<and> complianceLevel 8 = AAA
   \<and> (4.5::real) \<le> 5 \<and> (5::real) < 7 \<and> complianceLevel 5 = AA
   \<and> (4::real) < 4.5 \<and> complianceLevel 4 = Fail
   \<and> (4.5::real) \<le> 5 \<and> complianceLevelLarge 5 = AAA
   \<and> (3::real) \<le> 4 \<and> (4::real) < 4.5 \<and> complianceLevelLarge 4 = AA
   \<and> (2::real) < 3 \<and> complianceLevelLarge 2 = Fail"
  using compliance_tiers [of 8] compliance_tiers [of 5] compliance_tiers [of 4] compliance_tiers [of 2] by simp

text \<open>
  C9: the action on the tokens \<open>red\<close> and \<open>white\<close> succeeds: \<open>red\<close> is normalized to
  \<open>#ff0000\<close> and \<open>white\<close> to \<open>#ffffff\<close>, the ratio is about 3.998, the level for
  normal text is Fail and the level for large text is AA.
\<close>

theorem action_red_white:
  "normalizeColor ''red'' = Inr (JSString ''#ff0000'')
   \<and> normalizeColor ''white'' = Inr (JSString ''#ffffff'')
   \<and> (\<exists>r. action ''red'' ''white'' = ActionResult (Some r) Fail AA ''#ff0000'' ''#ffffff''
          \<and> \<bar>r - 3.998\<bar> < 0.001)"
proof -
  have act: "action ''red'' ''white''
      = ActionResult (Some (5250 / 1313)) Fail AA ''#ff0000'' ''#ffffff''"
    by (simp add: action_def norm_red norm_white ratio_red_white
        complianceLevel_def complianceLevelLarge_def)
  have "\<bar>(5250 / 1313 :: real) - 3.998\<bar> < 0.001" by simp
  with act norm_red norm_white show ?thesis by blast
qed

end
